theory Spec2Isabelle
  imports Main
begin

section \<open>Python strings\<close>

text \<open>
  Python \<open>str\<close> values are modelled as \<open>string\<close>, a character standing for a code point
  below 256. The characters that cannot be written inside a string literal get names.
\<close>

abbreviation NL :: char where "NL \<equiv> CHR 0x0A"
abbreviation DQ :: char where "DQ \<equiv> CHR 0x22"
abbreviation SQ :: char where "SQ \<equiv> CHR 0x27"
abbreviation BS :: char where "BS \<equiv> CHR 0x5C"

text \<open>\<open>s.lstrip(chars)\<close>, \<open>s.rstrip(chars)\<close> and \<open>s.strip(chars)\<close>.\<close>

definition lstrip :: "string \<Rightarrow> string \<Rightarrow> string" where
  "lstrip chars s = dropWhile (\<lambda>c. c \<in> set chars) s"

definition rstrip :: "string \<Rightarrow> string \<Rightarrow> string" where
  "rstrip chars s = rev (dropWhile (\<lambda>c. c \<in> set chars) (rev s))"

definition strip :: "string \<Rightarrow> string \<Rightarrow> string" where
  "strip chars s = rstrip chars (lstrip chars s)"

text \<open>\<open>s.replace(old, new)\<close> for a one-character \<open>old\<close>.\<close>

definition replace :: "char \<Rightarrow> string \<Rightarrow> string \<Rightarrow> string" where
  "replace old new s = concat (map (\<lambda>c. if c = old then new else [c]) s)"

text \<open>\<open>s.split(sep)\<close> for a one-character \<open>sep\<close>: the empty string gives one empty field.\<close>

fun split :: "char \<Rightarrow> string \<Rightarrow> string list" where
  "split sep [] = [[]]"
| "split sep (c # s) =
     (if c = sep then [] # split sep s
      else (case split sep s of [] \<Rightarrow> [[c]] | w # ws \<Rightarrow> (c # w) # ws))"


text \<open>
  \<open>s.upper()\<close> and \<open>s.lower()\<close>, exact on ASCII text. The handler only tests their
  results for membership in \<open>['A', 'TXT']\<close> and \<open>['update', 'delete']\<close>, and Python maps
  no text with a character outside ASCII to one of these words, so the tests are decided
  as in the code for every input.
\<close>

definition upper :: "string \<Rightarrow> string" where
  "upper s = map (\<lambda>c. if c \<in> set ''abcdefghijklmnopqrstuvwxyz'' then char_of (of_char c - (32::nat)) else c) s"

definition lower :: "string \<Rightarrow> string" where
  "lower s = map (\<lambda>c. if c \<in> set ''ABCDEFGHIJKLMNOPQRSTUVWXYZ'' then char_of (of_char c + (32::nat)) else c) s"

text \<open>
  The characters that \<open>s.strip()\<close> without an argument removes, those for which
  \<open>str.isspace\<close> holds: tab to carriage return, the four separators \<open>0x1C\<close> to \<open>0x1F\<close>,
  the space, and \<open>U+0085\<close> and \<open>U+00A0\<close>.
\<close>

definition whitespace :: string where
  "whitespace = [CHR 0x09, CHR 0x0A, CHR 0x0B, CHR 0x0C, CHR 0x0D, CHR 0x1C, CHR 0x1D, CHR 0x1E,
                 CHR 0x1F, CHR 0x20, CHR 0x85, CHR 0xA0]"

section \<open>Process-wide configuration and the outside world\<close>

text \<open>
  \<open>ZONE_env\<close> is \<open>os.environ.get("ZONE", "")\<close>, \<open>RECORD_TTL\<close> is
  \<open>os.environ.get("RECORD_TTL", "3600")\<close>, \<open>gettempdir\<close> is what \<open>tempfile.gettempdir()\<close>
  returns.
\<close>

record config =
  ZONE_env :: string
  RECORD_TTL :: string
  gettempdir :: string

text \<open>
  A child process either cannot be run (the call raises) or exits with a return code and
  its two captured streams.
\<close>

datatype proc = Raised | Exited int string string

type_synonym files = "string \<rightharpoonup> string"

text \<open>
  The standard library and the operating system are parameters: \<open>ip_address a\<close> holds when
  \<open>ipaddress.ip_address(a)\<close> returns and fails when it raises \<open>ValueError\<close>;
  \<open>subprocess_exec argv fs\<close> is the outcome of running \<open>argv\<close> over the files \<open>fs\<close>.
  The tool reads the files and does not change them.
\<close>

record system =
  ip_address :: "string \<Rightarrow> bool"
  subprocess_exec :: "string list \<Rightarrow> files \<Rightarrow> proc"

definition NSUPDATE :: string where
  "NSUPDATE = ''/usr/bin/nsupdate''"

text \<open>\<open>Path(a) / b\<close> and \<open>os.path.join(a, b)\<close> for a relative \<open>b\<close>.\<close>

definition path_join :: "string \<Rightarrow> string \<Rightarrow> string" where
  "path_join a b = (if a = [] \<or> last a = CHR ''/'' then a @ b else a @ ''/'' @ b)"

section \<open>api.py\<close>

text \<open>\<open>ZONE = os.environ.get("ZONE", "").strip(". ")\<close>\<close>

definition ZONE :: "config \<Rightarrow> string" where
  "ZONE cfg = strip ''. '' (ZONE_env cfg)"

datatype RecordType = A | TXT

datatype MethodType = update | delete

fun RecordType_value :: "RecordType \<Rightarrow> string" where
  "RecordType_value A = ''A''"
| "RecordType_value TXT = ''TXT''"


text \<open>
  \<open>HostType\<close>: the pattern
  \<^verbatim>\<open>^(([a-zA-Z0-9]|[a-zA-Z0-9][a-zA-Z0-9\-]*[a-zA-Z0-9])\.)*([A-Za-z0-9]|[A-Za-z0-9][A-Za-z0-9\-]*[A-Za-z0-9])$\<close>
  accepts the dot-separated sequences of labels, a label being one alphanumeric character
  or a run of alphanumerics and hyphens that starts and ends with an alphanumeric.
\<close>

definition alnum :: "char \<Rightarrow> bool" where
  "alnum c = (c \<in> set ''abcdefghijklmnopqrstuvwxyzABCDEFGHIJKLMNOPQRSTUVWXYZ0123456789'')"

definition label :: "string \<Rightarrow> bool" where
  "label l = (l \<noteq> [] \<and> alnum (hd l) \<and> alnum (last l) \<and> list_all (\<lambda>c. alnum c \<or> c = CHR ''-'') l)"

definition HostType :: "string \<Rightarrow> bool" where
  "HostType h = list_all label (split (CHR ''.'') h)"

text \<open>\<open>is_valid_ip\<close>: whether \<open>ipaddress.ip_address(address)\<close> returns.\<close>

definition is_valid_ip :: "system \<Rightarrow> string \<Rightarrow> bool" where
  "is_valid_ip sys address = (if ip_address sys address then True else False)"

text \<open>
  Only \<open>request.client.host\<close> is read of the request; \<open>request.client\<close> is \<open>None\<close> when
  the transport gives no peer address, and the attribute access raises then.
\<close>

record Request =
  client :: "string option"

datatype error = HTTPException nat string | AttributeError | OSError

text \<open>
  The messages \<open>f"Updated record: {host} {record_type.value} {record_value}"\<close> and
  \<open>f"Deleted record: {host} {record_type.value}"\<close> are kept as their format arguments;
  \<open>Detail\<close> is a fixed text.
\<close>

datatype message = Updated "string list" string string | Deleted "string list" string | Detail string

record ApiResponse =
  success :: bool
  message :: message

text \<open>Line 122: \<open>value = value.strip(" \"'") if value else ""\<close>.\<close>

definition stripped :: "string option \<Rightarrow> string" where
  "stripped value =
     (case value of None \<Rightarrow> [] | Some v \<Rightarrow> if v \<noteq> [] then strip [CHR '' '', DQ, SQ] v else [])"

text \<open>
  Lines 123 to 142 of \<open>update_record\<close>: the trimmed value is checked by record type; the
  result is \<open>record_value\<close>.
\<close>

definition record_value_of ::
  "system \<Rightarrow> Request \<Rightarrow> RecordType \<Rightarrow> MethodType \<Rightarrow> string option \<Rightarrow> error + string" where
  "record_value_of sys request record_type method value =
     (let value = stripped value
      in case record_type of
           A \<Rightarrow>
             if value \<noteq> [] then
               if \<not> is_valid_ip sys value
               then Inl (HTTPException 400 ''Value for A record is not a valid IP'')
               else Inr value
             else (case client request of None \<Rightarrow> Inl AttributeError | Some host \<Rightarrow> Inr host)
         | TXT \<Rightarrow>
             if method = update \<and> value = []
             then Inl (HTTPException 400 ''TXT record value cannot be empty'')
             else if value \<noteq> [] then Inr ([DQ] @ replace DQ [BS, DQ] value @ [DQ])
             else Inr [])"

text \<open>Lines 145 to 151: the update file, one \<open>+=\<close> after the other.\<close>

definition file_content :: "config \<Rightarrow> RecordType \<Rightarrow> MethodType \<Rightarrow> string list \<Rightarrow> string \<Rightarrow> string" where
  "file_content cfg record_type method host record_value =
     foldl (\<lambda>file_content record_host.
              (file_content
                 @ ''update delete '' @ record_host @ ''.'' @ ZONE cfg @ '' ''
                 @ RecordType_value record_type @ [NL])
              @ (if method = update
                 then ''update add '' @ record_host @ ''.'' @ ZONE cfg @ '' '' @ RECORD_TTL cfg
                      @ '' '' @ RecordType_value record_type @ '' '' @ record_value @ [NL]
                 else []))
       (''server 127.0.0.1'' @ [NL] @ ''zone '' @ ZONE cfg @ [NL])
       host
     @ ''send'' @ [NL]"

text \<open>Line 153: the path of the update file.\<close>

definition update_file :: "config \<Rightarrow> string" where
  "update_file cfg = path_join (gettempdir cfg) ''nsupdate.txt''"

text \<open>
  \<open>update_record\<close>, with the files before the request as an argument and the files after
  it beside the result.
\<close>

definition update_record ::
  "system \<Rightarrow> config \<Rightarrow> files \<Rightarrow> Request \<Rightarrow> RecordType \<Rightarrow> MethodType \<Rightarrow> string list
     \<Rightarrow> string option \<Rightarrow> files \<times> (error + ApiResponse)" where
  "update_record sys cfg fs request record_type method host value =
     (case record_value_of sys request record_type method value of
        Inl e \<Rightarrow> (fs, Inl e)
      | Inr record_value \<Rightarrow>
          (let fs' = fs(update_file cfg \<mapsto> file_content cfg record_type method host record_value);
               command = [NSUPDATE, update_file cfg]
           in case subprocess_exec sys command fs' of
                Raised \<Rightarrow> (fs', Inl (HTTPException 500 ''An error occured.''))
              | Exited returncode stdout stderr \<Rightarrow>
                  if returncode \<noteq> 0
                  then (fs', Inl (HTTPException 500 ''An error occured.''))
                  else (fs', Inr \<lparr>success = True,
                                  message = (if method = delete
                                             then Deleted host (RecordType_value record_type)
                                             else Updated host (RecordType_value record_type) record_value)\<rparr>)))"

text \<open>
  A dotted quad of decimal fields as \<open>ipaddress.IPv4Address\<close> reads it (four fields of one
  to three digits, no leading zero, at most 255): the library predicate the theorems below
  are run with at concrete inputs.
\<close>

definition octet :: "string \<Rightarrow> bool" where
  "octet s = (s \<noteq> [] \<and> length s \<le> 3 \<and> list_all (\<lambda>c. c \<in> set ''0123456789'') s
              \<and> (length s = 1 \<or> hd s \<noteq> CHR ''0'')
              \<and> foldl (\<lambda>n c. 10 * n + (of_char c - 48)) (0::nat) s \<le> 255)"

definition dotted_quad :: "string \<Rightarrow> bool" where
  "dotted_quad a = (length (split (CHR ''.'') a) = 4 \<and> list_all octet (split (CHR ''.'') a))"

section \<open>ddns-api/api.py\<close>

text \<open>\<open>ZONE = os.environ.get('ZONE', '').lstrip('.')\<close>\<close>

definition ZONE_ddns_api :: "config \<Rightarrow> string" where
  "ZONE_ddns_api cfg = lstrip ''.'' (ZONE_env cfg)"

definition valid_ip :: "system \<Rightarrow> string \<Rightarrow> bool" where
  "valid_ip sys address = (if ip_address sys address then True else False)"

text \<open>
  What the handler reads of the Flask request: the query parameters \<open>host\<close> and \<open>value\<close>
  (\<open>None\<close> when absent), the header \<open>X-Real-IP\<close> and \<open>request.remote_addr\<close>.
\<close>

record flask_request =
  query_host :: "string option"
  query_value :: "string option"
  X_Real_IP :: "string option"
  remote_addr :: "string option"

text \<open>\<open>parser.add_argument(name, type=str, default='', trim=True)\<close>\<close>

definition parse_arg :: "string option \<Rightarrow> string" where
  "parse_arg raw = (case raw of None \<Rightarrow> [] | Some v \<Rightarrow> strip whitespace v)"

text \<open>
  Lines 105 to 122, \<open>Prepare value\<close>: the value, or the response the handler returns
  at once. A \<open>None\<close> address is formatted as \<open>None\<close>.
\<close>

definition prepare_value ::
  "system \<Rightarrow> flask_request \<Rightarrow> string \<Rightarrow> string \<Rightarrow> string \<Rightarrow> ApiResponse + string" where
  "prepare_value sys request record_type method args_value =
     (if record_type = ''A'' then
        if args_value \<noteq> [] then
          if \<not> valid_ip sys args_value
          then Inl \<lparr>success = False, message = Detail ''Address invalid''\<rparr>
          else Inr args_value
        else Inr (case X_Real_IP request of
                    Some ip \<Rightarrow> ip
                  | None \<Rightarrow> (case remote_addr request of Some ip \<Rightarrow> ip | None \<Rightarrow> ''None''))
      else if record_type = ''TXT'' then
        if args_value = [] \<and> \<not> method = ''delete''
        then Inl \<lparr>success = False, message = Detail ''Empty TXT value''\<rparr>
        else Inr ([DQ] @ strip [CHR '' '', DQ] args_value @ [DQ])
      else Inr [])"

text \<open>Lines 124 to 135: the update file.\<close>

definition file_content_ddns_api :: "config \<Rightarrow> string \<Rightarrow> string \<Rightarrow> string list \<Rightarrow> string \<Rightarrow> string" where
  "file_content_ddns_api cfg record_type method hosts value =
     foldl (\<lambda>file_content host.
              file_content
                @ (''update delete '' @ host @ '' '' @ record_type @ [NL]
                   @ (if method = ''update''
                      then ''update add '' @ host @ '' '' @ RECORD_TTL cfg @ '' '' @ record_type
                           @ '' '' @ value @ [NL]
                      else [])))
       (''server localhost'' @ [NL] @ ''zone '' @ ZONE_ddns_api cfg @ [NL])
       hosts
     @ ''send'' @ [NL]"

definition update_filename :: "config \<Rightarrow> string" where
  "update_filename cfg = path_join (gettempdir cfg) ''nsupdate.txt''"

text \<open>
  \<open>ResourceHandler.get\<close>. Only \<open>CalledProcessError\<close> (a non-zero exit status) is caught; a
  tool that cannot be run raises out of the handler.
\<close>

definition ResourceHandler_get ::
  "system \<Rightarrow> config \<Rightarrow> files \<Rightarrow> flask_request \<Rightarrow> string \<Rightarrow> string \<Rightarrow> files \<times> (error + ApiResponse)" where
  "ResourceHandler_get sys cfg fs request record_type method =
     (let record_type = strip whitespace (upper record_type);
          method = strip whitespace (lower method)
      in if record_type \<notin> set [''A'', ''TXT'']
         then (fs, Inr \<lparr>success = False, message = Detail ''Unknown record''\<rparr>)
         else if method \<notin> set [''update'', ''delete'']
         then (fs, Inr \<lparr>success = False, message = Detail ''Unknown method''\<rparr>)
         else
           (let args_host = parse_arg (query_host request);
                args_value = parse_arg (query_value request);
                hosts = map (\<lambda>host. strip whitespace host @ ''.'' @ ZONE_ddns_api cfg)
                          (filter (\<lambda>host. strip whitespace host \<noteq> []) (split (CHR '','') args_host))
            in if hosts = []
               then (fs, Inr \<lparr>success = False, message = Detail ''Missing host value''\<rparr>)
               else
                 (case prepare_value sys request record_type method args_value of
                    Inl response \<Rightarrow> (fs, Inr response)
                  | Inr value \<Rightarrow>
                      (let fs' = fs(update_filename cfg \<mapsto>
                                      file_content_ddns_api cfg record_type method hosts value);
                           command = [NSUPDATE, update_filename cfg]
                       in case subprocess_exec sys command fs' of
                            Raised \<Rightarrow> (fs', Inl OSError)
                          | Exited returncode stdout stderr \<Rightarrow>
                              if returncode \<noteq> 0
                              then (fs', Inr \<lparr>success = False, message = Detail ''Error updating zone''\<rparr>)
                              else (fs', Inr \<lparr>success = True,
                                              message = (if method = ''delete''
                                                         then Deleted hosts record_type
                                                         else Updated hosts record_type value)\<rparr>)))))"

section \<open>Requests handled concurrently\<close>

text \<open>
  Past validation a request does two things to the files. It writes its batch to the update
  file (api.py line 154, ddns-api/api.py lines 138 and 139); later the child process it
  started reads the file named on its command line (api.py lines 156 to 163,
  ddns-api/api.py lines 141 to 146). The path of the file does not depend on the request,
  and neither handler takes a lock, so nothing orders the steps of one request against
  those of another: a schedule is any list of request numbers, each occurrence letting
  that request take its next step. \<open>tool_input\<close> records what the request's tool found in
  the file.
\<close>

datatype stage = to_write | to_run | finished

record job =
  batch :: string
  at :: stage
  tool_input :: "string option"

definition new_job :: "string \<Rightarrow> job" where
  "new_job b = \<lparr>batch = b, at = to_write, tool_input = None\<rparr>"

definition step :: "config \<Rightarrow> files \<times> job list \<Rightarrow> nat \<Rightarrow> files \<times> job list" where
  "step cfg state i =
     (case state of (fs, jobs) \<Rightarrow>
        if i < length jobs then
          (case at (jobs ! i) of
             to_write \<Rightarrow> (fs(update_file cfg \<mapsto> batch (jobs ! i)), jobs[i := (jobs ! i)\<lparr>at := to_run\<rparr>])
           | to_run \<Rightarrow> (fs, jobs[i := (jobs ! i)\<lparr>at := finished, tool_input := fs (update_file cfg)\<rparr>])
           | finished \<Rightarrow> (fs, jobs))
        else (fs, jobs))"

definition run_schedule :: "config \<Rightarrow> nat list \<Rightarrow> files \<times> job list \<Rightarrow> files \<times> job list" where
  "run_schedule cfg schedule state = foldl (step cfg) state schedule"

text \<open>Every tool was handed the batch of its own request.\<close>

definition own_batches :: "files \<times> job list \<Rightarrow> bool" where
  "own_batches state = list_all (\<lambda>j. tool_input j = Some (batch j)) (snd state)"


section \<open>Comparing the two handlers\<close>





section \<open>The tool's side of a quoted string\<close>

text \<open>
  How the update tool reads a quoted character string of the master-file format (RFC 1035,
  section 5.1): the string runs from the opening quote to the first unescaped quote, and a
  backslash quotes the character after it. \<open>read_quoted\<close> is \<open>None\<close> when the literal does
  not open with a quote, is not closed, or goes on after the closing quote. The decimal
  escape \<open>\DDD\<close> is not modelled. This is not code of the repository: it is what the
  round trip of the TXT value is measured against.
\<close>

fun scan_quoted :: "string \<Rightarrow> string option" where
  "scan_quoted [] = None"
| "scan_quoted (c # s) =
     (if c = DQ then (if s = [] then Some [] else None)
      else if c = BS then (case s of [] \<Rightarrow> None | d # t \<Rightarrow> map_option ((#) d) (scan_quoted t))
      else map_option ((#) c) (scan_quoted s))"

definition read_quoted :: "string \<Rightarrow> string option" where
  "read_quoted literal = (case literal of [] \<Rightarrow> None | c # s \<Rightarrow> if c = DQ then scan_quoted s else None)"

section \<open>A concrete deployment\<close>

text \<open>
  The configuration of the specification's examples (zone \<open>example.com\<close>, TTL \<open>3600\<close>)
  and a system whose tool always exits with status 0.
\<close>

definition example_config :: config where
  "example_config = \<lparr>ZONE_env = ''example.com'', RECORD_TTL = ''3600'', gettempdir = ''/tmp''\<rparr>"

definition example_system :: system where
  "example_system = \<lparr>ip_address = dotted_quad, subprocess_exec = (\<lambda>argv fs. Exited 0 [] [])\<rparr>"

section \<open>Properties of the string operations\<close>

lemma foldl_append_concat:
  "foldl (\<lambda>acc x. acc @ f x) init xs = init @ concat (map f xs)"
  by (induction xs arbitrary: init) simp_all



lemma split_segment:
  "sep \<notin> set seg \<Longrightarrow> split sep (seg @ sep # rest) = seg # split sep rest"
  by (induction seg) auto

lemma split_no_sep: "sep \<notin> set s \<Longrightarrow> split sep s = [s]"
  by (induction s) auto

lemma split_not_Nil: "split sep s \<noteq> []"
  by (induction s) (auto split: list.split)

lemma split_covers:
  "c \<in> set s \<Longrightarrow> c \<noteq> sep \<Longrightarrow> \<exists>w \<in> set (split sep s). c \<in> set w"
proof (induction s)
  case Nil
  then show ?case by simp
next
  case (Cons x s)
  show ?case
  proof (cases "x = sep")
    case True
    with Cons show ?thesis by auto
  next
    case False
    obtain w ws where ws: "split sep s = w # ws"
      using split_not_Nil [of sep s] by (cases "split sep s") auto
    show ?thesis
    proof (cases "c = x")
      case True
      with False ws show ?thesis by simp
    next
      case c: False
      with Cons.prems have "c \<in> set s" by simp
      with Cons.IH Cons.prems obtain u where "u \<in> set (split sep s)" "c \<in> set u" by blast
      with False ws show ?thesis by auto
    qed
  qed
qed





section \<open>Properties of \<open>update_record\<close>\<close>

lemma file_content_concat:
  "file_content cfg record_type method host record_value =
     ''server 127.0.0.1'' @ [NL] @ ''zone '' @ ZONE cfg @ [NL]
     @ concat (map (\<lambda>record_host.
          ''update delete '' @ record_host @ ''.'' @ ZONE cfg @ '' '' @ RecordType_value record_type @ [NL]
          @ (if method = update
             then ''update add '' @ record_host @ ''.'' @ ZONE cfg @ '' '' @ RECORD_TTL cfg
                  @ '' '' @ RecordType_value record_type @ '' '' @ record_value @ [NL]
             else [])) host)
     @ ''send'' @ [NL]"
  unfolding file_content_def
  by (simp add: foldl_append_concat)

lemma update_record_writes:
  "record_value_of sys request record_type method value = Inr record_value \<Longrightarrow>
   fst (update_record sys cfg fs request record_type method host value) =
     fs(update_file cfg \<mapsto> file_content cfg record_type method host record_value)"
  by (simp add: update_record_def Let_def split: proc.split)

lemma update_record_rejects:
  "record_value_of sys request record_type method value = Inl e \<Longrightarrow>
   update_record sys cfg fs request record_type method host value = (fs, Inl e)"
  by (simp add: update_record_def)

lemma HostType_chars:
  assumes "HostType h" and "c \<in> set h"
  shows "alnum c \<or> c = CHR ''-'' \<or> c = CHR ''.''"
proof (cases "c = CHR ''.''")
  case True
  then show ?thesis by simp
next
  case False
  with assms(2) obtain w where w: "w \<in> set (split (CHR ''.'') h)" "c \<in> set w"
    using split_covers by blast
  with assms(1) have "label w" by (simp add: HostType_def list_all_iff)
  with w(2) show ?thesis by (auto simp: label_def list_all_iff)
qed

lemma HostType_no_NL: "HostType h \<Longrightarrow> NL \<notin> set h"
  using HostType_chars [of h NL] by (auto simp: alnum_def)

lemma split_delete_lines:
  assumes "list_all HostType host" and "NL \<notin> set zone" and "NL \<notin> set rt"
  shows "split NL (concat (map (\<lambda>h. ''update delete '' @ h @ ''.'' @ zone @ '' '' @ rt @ [NL]) host) @ rest)
         = map (\<lambda>h. ''update delete '' @ h @ ''.'' @ zone @ '' '' @ rt) host @ split NL rest"
  using assms(1)
proof (induction host)
  case Nil
  show ?case by simp
next
  case (Cons h host)
  then have h: "NL \<notin> set h" by (simp add: HostType_no_NL)
  have seg: "NL \<notin> set (''update delete '' @ h @ ''.'' @ zone @ '' '' @ rt)"
    using h assms(2,3) by simp
  have "split NL ((''update delete '' @ h @ ''.'' @ zone @ '' '' @ rt) @ NL #
            (concat (map (\<lambda>h. ''update delete '' @ h @ ''.'' @ zone @ '' '' @ rt @ [NL]) host) @ rest))
        = (''update delete '' @ h @ ''.'' @ zone @ '' '' @ rt) #
            split NL (concat (map (\<lambda>h. ''update delete '' @ h @ ''.'' @ zone @ '' '' @ rt @ [NL]) host) @ rest)"
    using seg by (rule split_segment)
  with Cons show ?case by simp
qed

lemma RecordType_value_no_NL: "NL \<notin> set (RecordType_value record_type)"
  by (cases record_type) simp_all

lemma replace_Cons: "replace old new (c # s) = (if c = old then new else [c]) @ replace old new s"
  by (simp add: replace_def)

lemma replace_Nil: "replace old new [] = []"
  by (simp add: replace_def)

lemma file_content_delete:
  "file_content cfg record_type delete host record_value = file_content cfg record_type delete host []"
  by (simp add: file_content_concat)

lemma update_record_delete_accepted:
  assumes "record_value_of sys request record_type delete value = Inr record_value"
  shows "update_record sys cfg fs request record_type delete host value =
    (let fs' = fs(update_file cfg \<mapsto> file_content cfg record_type delete host [])
     in case subprocess_exec sys [NSUPDATE, update_file cfg] fs' of
          Raised \<Rightarrow> (fs', Inl (HTTPException 500 ''An error occured.''))
        | Exited returncode stdout stderr \<Rightarrow>
            if returncode \<noteq> 0 then (fs', Inl (HTTPException 500 ''An error occured.''))
            else (fs', Inr \<lparr>success = True, message = Deleted host (RecordType_value record_type)\<rparr>))"
  using assms file_content_delete [of cfg record_type host record_value]
  by (simp add: update_record_def Let_def)

lemma scan_quoted_escaped:
  "BS \<notin> set v \<Longrightarrow> scan_quoted (replace DQ [BS, DQ] v @ [DQ]) = Some v"
  by (induction v) (auto simp: replace_Cons replace_Nil)

lemma read_quoted_round_trip:
  assumes "stripped value \<noteq> []" and "BS \<notin> set (stripped value)"
    and "record_value_of sys request TXT update value = Inr record_value"
  shows "read_quoted record_value = Some (stripped value)"
  using assms by (auto simp: record_value_of_def read_quoted_def scan_quoted_escaped)

section \<open>Properties of \<open>ResourceHandler.get\<close> and of the schedules\<close>









lemma prepare_value_default_address:
  "prepare_value sys request ''A'' method [] =
     Inr (case X_Real_IP request of
            Some ip \<Rightarrow> ip
          | None \<Rightarrow> (case remote_addr request of Some ip \<Rightarrow> ip | None \<Rightarrow> ''None''))"
  by (simp add: prepare_value_def)





lemma step_write:
  "at j = to_write \<Longrightarrow> i < length jobs \<Longrightarrow> jobs ! i = j \<Longrightarrow>
   step cfg (fs, jobs) i = (fs(update_file cfg \<mapsto> batch j), jobs[i := j\<lparr>at := to_run\<rparr>])"
  by (simp add: step_def)

section \<open>The concrete deployment\<close>

lemma example_ZONE: "ZONE example_config = ''example.com''"
  by (simp add: ZONE_def example_config_def strip_def lstrip_def rstrip_def)

lemma example_update_file: "update_file example_config = ''/tmp/nsupdate.txt''"
  by (simp add: update_file_def path_join_def example_config_def)



lemma example_ZONE_ddns_api: "ZONE_ddns_api example_config = ''example.com''"
  by (simp add: ZONE_ddns_api_def example_config_def lstrip_def)

lemma example_update_filename: "update_filename example_config = ''/tmp/nsupdate.txt''"
  by (simp add: update_filename_def path_join_def example_config_def)




section \<open>The claims\<close>

text \<open>
  C2. An A-record update with an explicit value that \<open>ipaddress\<close> accepts (after the
  trimming of line 122) and one host \<open>h\<close> writes a file with exactly one delete directive
  and one add directive for \<open>h\<close>, in that order, between the header and \<open>send\<close>; the add
  directive carries the configured TTL and the value.
\<close>

theorem A_update_explicit_ip:
  assumes "stripped (Some v) \<noteq> []" and "ip_address sys (stripped (Some v))"
  shows "fst (update_record sys cfg fs request A update [h] (Some v)) (update_file cfg) =
      Some (''server 127.0.0.1'' @ [NL] @ ''zone '' @ ZONE cfg @ [NL]
            @ ''update delete '' @ h @ ''.'' @ ZONE cfg @ '' A'' @ [NL]
            @ ''update add '' @ h @ ''.'' @ ZONE cfg @ '' '' @ RECORD_TTL cfg @ '' A ''
              @ stripped (Some v) @ [NL]
            @ ''send'' @ [NL])"
proof -
  have rv: "record_value_of sys request A update (Some v) = Inr (stripped (Some v))"
    using assms by (simp add: record_value_of_def is_valid_ip_def)
  show ?thesis
    by (simp add: update_record_writes [OF rv] file_content_concat)
qed

text \<open>
  The example of the specification: \<open>host=foo\<close>, \<open>value=10.0.0.5\<close>, zone \<open>example.com\<close>,
  TTL \<open>3600\<close>.
\<close>

theorem A_update_explicit_ip_witness:
  "stripped (Some ''10.0.0.5'') \<noteq> [] \<and> ip_address example_system (stripped (Some ''10.0.0.5''))
   \<and> fst (update_record example_system example_config Map.empty \<lparr>client = None\<rparr> A update [''foo'']
             (Some ''10.0.0.5'')) ''/tmp/nsupdate.txt''
       = Some (''server 127.0.0.1'' @ [NL] @ ''zone example.com'' @ [NL]
               @ ''update delete foo.example.com A'' @ [NL]
               @ ''update add foo.example.com 3600 A 10.0.0.5'' @ [NL]
               @ ''send'' @ [NL])"
proof -
  have v: "stripped (Some ''10.0.0.5'') = ''10.0.0.5''"
    by (simp add: stripped_def strip_def lstrip_def rstrip_def)
  have n: "stripped (Some ''10.0.0.5'') \<noteq> []"
    by (simp add: v)
  have i: "ip_address example_system (stripped (Some ''10.0.0.5''))"
    by (simp add: v example_system_def dotted_quad_def octet_def)
  have t: "RECORD_TTL example_config = ''3600''"
    by (simp add: example_config_def)
  show ?thesis
    using A_update_explicit_ip [OF n i, of example_config Map.empty "\<lparr>client = None\<rparr>" "''foo''"] n i
    by (simp add: v t example_ZONE example_update_file)
qed

text \<open>
  On \<open>update_record\<close>, whose hosts the route checks against \<open>HostType\<close>, a delete
  request that passes validation writes the header, one delete directive per host and
  \<open>send\<close>, whatever the record type and the value, for a zone on one line; no line of the
  file is an \<open>update add\<close> directive.
\<close>

theorem delete_never_adds:
  assumes "list_all HostType host" and "NL \<notin> set (ZONE cfg)"
    and "record_value_of sys request record_type delete value = Inr record_value"
  shows "fst (update_record sys cfg fs request record_type delete host value) (update_file cfg)
           = Some (file_content cfg record_type delete host record_value)
         \<and> split NL (file_content cfg record_type delete host record_value)
           = [''server 127.0.0.1'', ''zone '' @ ZONE cfg]
             @ map (\<lambda>h. ''update delete '' @ h @ ''.'' @ ZONE cfg @ '' '' @ RecordType_value record_type) host
             @ [''send'', []]
         \<and> list_all (\<lambda>line. take 10 line \<noteq> ''update add'')
             (split NL (file_content cfg record_type delete host record_value))"
proof -
  let ?del = "\<lambda>h. ''update delete '' @ h @ ''.'' @ ZONE cfg @ '' '' @ RecordType_value record_type"
  let ?content = "file_content cfg record_type delete host record_value"
  have written: "fst (update_record sys cfg fs request record_type delete host value) (update_file cfg)
      = Some ?content"
    by (simp add: update_record_writes [OF assms(3)])
  have body: "split NL (concat (map (\<lambda>h. ?del h @ [NL]) host) @ ''send'' @ [NL])
      = map ?del host @ split NL (''send'' @ [NL])"
    using split_delete_lines [OF assms(1) assms(2) RecordType_value_no_NL] by simp
  have zone: "split NL ((''zone '' @ ZONE cfg) @ NL # (concat (map (\<lambda>h. ?del h @ [NL]) host) @ ''send'' @ [NL]))
      = (''zone '' @ ZONE cfg) # split NL (concat (map (\<lambda>h. ?del h @ [NL]) host) @ ''send'' @ [NL])"
    by (rule split_segment) (use assms(2) in simp)
  have server: "split NL (''server 127.0.0.1'' @ NL # rest) = ''server 127.0.0.1'' # split NL rest" for rest
    by (rule split_segment) simp
  have content: "?content = ''server 127.0.0.1'' @ NL # ((''zone '' @ ZONE cfg) @ NL #
       (concat (map (\<lambda>h. ?del h @ [NL]) host) @ ''send'' @ [NL]))"
    by (simp add: file_content_concat)
  have lines: "split NL ?content = [''server 127.0.0.1'', ''zone '' @ ZONE cfg] @ map ?del host @ [''send'', []]"
    unfolding content server zone body by simp
  have "list_all (\<lambda>line. take 10 line \<noteq> ''update add'') (map ?del host)"
    by (simp add: list_all_iff)
  then have none: "list_all (\<lambda>line. take 10 line \<noteq> ''update add'') (split NL ?content)"
    unfolding lines by simp
  from written lines none show ?thesis by simp
qed

theorem delete_never_adds_witness:
  "list_all HostType [''foo''] \<and> NL \<notin> set (ZONE example_config)
   \<and> record_value_of example_system \<lparr>client = None\<rparr> TXT delete None = Inr []
   \<and> fst (update_record example_system example_config Map.empty \<lparr>client = None\<rparr> TXT delete [''foo''] None)
        ''/tmp/nsupdate.txt''
       = Some (''server 127.0.0.1'' @ [NL] @ ''zone example.com'' @ [NL]
               @ ''update delete foo.example.com TXT'' @ [NL] @ ''send'' @ [NL])"
proof -
  have h: "list_all HostType [''foo'']"
    by (simp add: HostType_def label_def alnum_def)
  have n: "NL \<notin> set (ZONE example_config)"
    by (simp add: example_ZONE)
  have r: "record_value_of example_system \<lparr>client = None\<rparr> TXT delete None = Inr []"
    by (simp add: record_value_of_def stripped_def)
  have c: "file_content example_config TXT delete [''foo''] [] =
      ''server 127.0.0.1'' @ [NL] @ ''zone example.com'' @ [NL]
               @ ''update delete foo.example.com TXT'' @ [NL] @ ''send'' @ [NL]"
    by (simp add: file_content_def example_ZONE)
  show ?thesis
    using delete_never_adds [OF h n r, of Map.empty] h n r
    by (simp add: example_update_file c)
qed

text \<open>
  C4 at a failing input: \<open>ResourceHandler.get\<close> takes its hosts as they come, trimmed of
  whitespace at both ends only (lines 97 to 100). A delete request whose host holds line
  breaks writes an \<open>update add\<close> directive.
\<close>

theorem ResourceHandler_delete_adds:
  "map_option (split NL)
     (fst (ResourceHandler_get example_system example_config Map.empty
             \<lparr>query_host = Some (''foo A'' @ NL # ''update add x.example.com 60 A 1.2.3.4''
                                   @ NL # ''update delete bar''),
                query_value = None, X_Real_IP = None, remote_addr = Some ''192.0.2.7''\<rparr>
             ''A'' ''delete'') ''/tmp/nsupdate.txt'')
   = Some [''server localhost'', ''zone example.com'', ''update delete foo A'',
           ''update add x.example.com 60 A 1.2.3.4'', ''update delete bar.example.com A'',
           ''send'', []]"
proof -
  let ?h = "''foo A'' @ NL # ''update add x.example.com 60 A 1.2.3.4'' @ NL # ''update delete bar''"
  let ?req = "\<lparr>query_host = Some ?h, query_value = None, X_Real_IP = None,
                remote_addr = Some ''192.0.2.7''\<rparr>"
  have rt: "strip whitespace (upper ''A'') = ''A''"
    by (simp add: upper_def strip_def lstrip_def rstrip_def whitespace_def)
  have mt: "strip whitespace (lower ''delete'') = ''delete''"
    by (simp add: lower_def strip_def lstrip_def rstrip_def whitespace_def)
  have sh: "strip whitespace ?h = ?h"
    by (simp add: strip_def lstrip_def rstrip_def whitespace_def)
  have ah: "parse_arg (query_host ?req) = ?h"
    using sh by (simp add: parse_arg_def)
  have sp: "split (CHR '','') ?h = [?h]"
    by (rule split_no_sep) simp
  have hosts: "map (\<lambda>host. strip whitespace host @ ''.'' @ ZONE_ddns_api example_config)
        (filter (\<lambda>host. strip whitespace host \<noteq> []) (split (CHR '','') (parse_arg (query_host ?req))))
      = [?h @ ''.example.com'']"
    unfolding ah sp using sh by (simp add: example_ZONE_ddns_api)
  have pv: "prepare_value example_system ?req ''A'' ''delete'' (parse_arg (query_value ?req)) = Inr ''192.0.2.7''"
    by (simp add: prepare_value_def parse_arg_def)
  have run: "subprocess_exec example_system argv fs = Exited 0 [] []" for argv fs
    by (simp add: example_system_def)
  have w: "fst (ResourceHandler_get example_system example_config Map.empty ?req ''A'' ''delete'')
             ''/tmp/nsupdate.txt''
      = Some (file_content_ddns_api example_config ''A'' ''delete'' [?h @ ''.example.com''] ''192.0.2.7'')"
    unfolding ResourceHandler_get_def Let_def rt mt hosts pv
    by (simp add: run example_update_filename)
  show ?thesis
    unfolding w by (simp add: file_content_ddns_api_def example_ZONE_ddns_api)
qed






text \<open>
  C5, as stated, fails: an A-record delete whose value is not an IP address is refused with
  status 400, while the same request without a value succeeds.
\<close>

theorem delete_value_counterexample:
  "update_record example_system example_config Map.empty \<lparr>client = Some ''192.0.2.7''\<rparr> A delete [''foo'']
     (Some ''not-an-ip'')
     = (Map.empty, Inl (HTTPException 400 ''Value for A record is not a valid IP''))
   \<and> snd (update_record example_system example_config Map.empty \<lparr>client = Some ''192.0.2.7''\<rparr> A delete
            [''foo''] None)
     = Inr \<lparr>success = True, message = Deleted [''foo''] ''A''\<rparr>"
proof -
  have s: "stripped (Some ''not-an-ip'') = ''not-an-ip''"
    by (simp add: stripped_def strip_def lstrip_def rstrip_def)
  have n: "\<not> ip_address example_system ''not-an-ip''"
    by (simp add: example_system_def dotted_quad_def octet_def)
  have bad: "record_value_of example_system \<lparr>client = Some ''192.0.2.7''\<rparr> A delete (Some ''not-an-ip'')
      = Inl (HTTPException 400 ''Value for A record is not a valid IP'')"
    using n by (simp add: record_value_of_def s is_valid_ip_def)
  have good: "record_value_of example_system \<lparr>client = Some ''192.0.2.7''\<rparr> A delete None
      = Inr ''192.0.2.7''"
    by (simp add: record_value_of_def stripped_def)
  have run: "subprocess_exec example_system argv fs = Exited 0 [] []" for argv fs
    by (simp add: example_system_def)
  show ?thesis
    by (simp add: update_record_rejects [OF bad] update_record_delete_accepted [OF good] run)
qed

text \<open>
  C5, amended. A TXT delete ignores the value: any two values give the same result and the
  same files. An A-record delete still checks the value: a non-empty trimmed value that is
  not an IP address is refused with status 400, and any two values that pass the check give
  the same result and the same files.
\<close>

theorem delete_ignores_accepted_value:
  "update_record sys cfg fs request TXT delete host value
     = update_record sys cfg fs request TXT delete host value'
   \<and> (record_value_of sys request A delete value = Inr record_value
        \<and> record_value_of sys request A delete value' = Inr record_value'
      \<longrightarrow> update_record sys cfg fs request A delete host value
            = update_record sys cfg fs request A delete host value')
   \<and> (stripped value \<noteq> [] \<and> \<not> ip_address sys (stripped value)
      \<longrightarrow> update_record sys cfg fs request A delete host value
            = (fs, Inl (HTTPException 400 ''Value for A record is not a valid IP'')))"
proof (intro conjI impI)
  have accepted: "\<exists>rv. record_value_of sys request TXT delete v = Inr rv" for v
    by (simp add: record_value_of_def Let_def)
  obtain rv rv' where "record_value_of sys request TXT delete value = Inr rv"
    and "record_value_of sys request TXT delete value' = Inr rv'"
    using accepted by blast
  then show "update_record sys cfg fs request TXT delete host value
     = update_record sys cfg fs request TXT delete host value'"
    by (simp add: update_record_delete_accepted)
next
  assume "record_value_of sys request A delete value = Inr record_value
        \<and> record_value_of sys request A delete value' = Inr record_value'"
  then show "update_record sys cfg fs request A delete host value
            = update_record sys cfg fs request A delete host value'"
    by (simp add: update_record_delete_accepted)
next
  assume "stripped value \<noteq> [] \<and> \<not> ip_address sys (stripped value)"
  then have "record_value_of sys request A delete value
      = Inl (HTTPException 400 ''Value for A record is not a valid IP'')"
    by (simp add: record_value_of_def is_valid_ip_def)
  then show "update_record sys cfg fs request A delete host value
            = (fs, Inl (HTTPException 400 ''Value for A record is not a valid IP''))"
    by (rule update_record_rejects)
qed

theorem delete_ignores_accepted_value_witness:
  "update_record example_system example_config Map.empty \<lparr>client = None\<rparr> TXT delete [''foo''] (Some ''x'')
     = update_record example_system example_config Map.empty \<lparr>client = None\<rparr> TXT delete [''foo''] None
   \<and> record_value_of example_system \<lparr>client = None\<rparr> A delete (Some ''10.0.0.5'') = Inr ''10.0.0.5''
   \<and> record_value_of example_system \<lparr>client = None\<rparr> A delete (Some ''10.0.0.6'') = Inr ''10.0.0.6''
   \<and> update_record example_system example_config Map.empty \<lparr>client = None\<rparr> A delete [''foo'']
        (Some ''10.0.0.5'')
     = update_record example_system example_config Map.empty \<lparr>client = None\<rparr> A delete [''foo'']
        (Some ''10.0.0.6'')
   \<and> stripped (Some ''not-an-ip'') \<noteq> [] \<and> \<not> ip_address example_system (stripped (Some ''not-an-ip''))
   \<and> update_record example_system example_config Map.empty \<lparr>client = None\<rparr> A delete [''foo'']
        (Some ''not-an-ip'')
     = (Map.empty, Inl (HTTPException 400 ''Value for A record is not a valid IP''))"
proof -
  have s5: "stripped (Some ''10.0.0.5'') = ''10.0.0.5''"
    by (simp add: stripped_def strip_def lstrip_def rstrip_def)
  have s6: "stripped (Some ''10.0.0.6'') = ''10.0.0.6''"
    by (simp add: stripped_def strip_def lstrip_def rstrip_def)
  have sn: "stripped (Some ''not-an-ip'') = ''not-an-ip''"
    by (simp add: stripped_def strip_def lstrip_def rstrip_def)
  have r5: "record_value_of example_system \<lparr>client = None\<rparr> A delete (Some ''10.0.0.5'') = Inr ''10.0.0.5''"
    by (simp add: record_value_of_def s5 is_valid_ip_def example_system_def dotted_quad_def octet_def)
  have r6: "record_value_of example_system \<lparr>client = None\<rparr> A delete (Some ''10.0.0.6'') = Inr ''10.0.0.6''"
    by (simp add: record_value_of_def s6 is_valid_ip_def example_system_def dotted_quad_def octet_def)
  have n: "stripped (Some ''not-an-ip'') \<noteq> [] \<and> \<not> ip_address example_system (stripped (Some ''not-an-ip''))"
    by (simp add: sn example_system_def dotted_quad_def octet_def)
  show ?thesis
    using delete_ignores_accepted_value [of example_system example_config Map.empty "\<lparr>client = None\<rparr>"
            "[''foo'']" "Some ''x''" None]
          delete_ignores_accepted_value [of example_system example_config Map.empty "\<lparr>client = None\<rparr>"
            "[''foo'']" "Some ''10.0.0.5''" "Some ''10.0.0.6''" "''10.0.0.5''" "''10.0.0.6''"]
          delete_ignores_accepted_value [of example_system example_config Map.empty "\<lparr>client = None\<rparr>"
            "[''foo'']" "Some ''not-an-ip''"]
          r5 r6 n
    by simp
qed

text \<open>
  C3 at a failing input: a TXT update whose value holds a line break. The add directive is
  spread over two lines of the file.
\<close>

theorem newline_splits_directive:
  "map_option (split NL)
     (fst (update_record example_system example_config Map.empty \<lparr>client = None\<rparr> TXT update [''foo'']
             (Some [CHR ''a'', NL, CHR ''b''])) ''/tmp/nsupdate.txt'')
   = Some [''server 127.0.0.1'', ''zone example.com'', ''update delete foo.example.com TXT'',
           ''update add foo.example.com 3600 TXT '' @ [DQ, CHR ''a''], [CHR ''b'', DQ], ''send'', []]"
proof -
  have rv: "record_value_of example_system \<lparr>client = None\<rparr> TXT update (Some [CHR ''a'', NL, CHR ''b''])
      = Inr [DQ, CHR ''a'', NL, CHR ''b'', DQ]"
    by (simp add: record_value_of_def stripped_def strip_def lstrip_def rstrip_def replace_def)
  have t: "RECORD_TTL example_config = ''3600''"
    by (simp add: example_config_def)
  have w: "fst (update_record example_system example_config Map.empty \<lparr>client = None\<rparr> TXT update [''foo'']
             (Some [CHR ''a'', NL, CHR ''b''])) ''/tmp/nsupdate.txt''
      = Some (file_content example_config TXT update [''foo''] [DQ, CHR ''a'', NL, CHR ''b'', DQ])"
    by (simp add: update_record_writes [OF rv] example_update_file)
  show ?thesis
    unfolding w by (simp add: file_content_def example_ZONE t)
qed

text \<open>
  C6 at a failing input: a backslash in a TXT value is written as it is. The tool reads
  \<open>a\b\<close> back as \<open>ab\<close>, and the literal for a lone backslash is not closed.
\<close>

theorem backslash_not_escaped:
  "record_value_of example_system \<lparr>client = None\<rparr> TXT update (Some [CHR ''a'', BS, CHR ''b''])
     = Inr [DQ, CHR ''a'', BS, CHR ''b'', DQ]
   \<and> read_quoted [DQ, CHR ''a'', BS, CHR ''b'', DQ] = Some ''ab''
   \<and> record_value_of example_system \<lparr>client = None\<rparr> TXT update (Some [BS]) = Inr [DQ, BS, DQ]
   \<and> read_quoted [DQ, BS, DQ] = None"
  by (simp add: record_value_of_def stripped_def strip_def lstrip_def rstrip_def replace_def read_quoted_def)

text \<open>
  C8, as stated, fails: after a successful request the update file is still there, holding
  the batch.
\<close>

theorem update_file_never_removed_counterexample:
  "snd (update_record example_system example_config Map.empty \<lparr>client = None\<rparr> A update [''foo'']
          (Some ''10.0.0.5''))
     = Inr \<lparr>success = True, message = Updated [''foo''] ''A'' ''10.0.0.5''\<rparr>
   \<and> fst (update_record example_system example_config Map.empty \<lparr>client = None\<rparr> A update [''foo'']
          (Some ''10.0.0.5'')) ''/tmp/nsupdate.txt''
     = Some (file_content example_config A update [''foo''] ''10.0.0.5'')"
proof -
  have v: "stripped (Some ''10.0.0.5'') = ''10.0.0.5''"
    by (simp add: stripped_def strip_def lstrip_def rstrip_def)
  have rv: "record_value_of example_system \<lparr>client = None\<rparr> A update (Some ''10.0.0.5'') = Inr ''10.0.0.5''"
    by (simp add: record_value_of_def v is_valid_ip_def example_system_def dotted_quad_def octet_def)
  have run: "subprocess_exec example_system argv fs = Exited 0 [] []" for argv fs
    by (simp add: example_system_def)
  have "snd (update_record example_system example_config Map.empty \<lparr>client = None\<rparr> A update [''foo'']
          (Some ''10.0.0.5''))
     = Inr \<lparr>success = True, message = Updated [''foo''] ''A'' ''10.0.0.5''\<rparr>"
    by (simp add: update_record_def rv run)
  then show ?thesis
    by (simp add: update_record_writes [OF rv] example_update_file)
qed

text \<open>
  C8, amended. Once validation has passed, whatever the tool does (exit status 0, another
  exit status, or no run at all), the request ends with the update file in place, holding
  the batch it wrote, and with every other file as it was: nothing is removed.
\<close>

theorem update_file_left_in_place:
  assumes "record_value_of sys request record_type method value = Inr record_value"
  shows "fst (update_record sys cfg fs request record_type method host value) (update_file cfg)
           = Some (file_content cfg record_type method host record_value)
         \<and> (\<forall>path. path \<noteq> update_file cfg \<longrightarrow>
               fst (update_record sys cfg fs request record_type method host value) path = fs path)"
  by (simp add: update_record_writes [OF assms])

theorem update_file_left_in_place_witness:
  "record_value_of \<lparr>ip_address = dotted_quad, subprocess_exec = (\<lambda>argv fs. Exited 1 [] ''update failed'')\<rparr>
      \<lparr>client = None\<rparr> TXT delete None = Inr []
   \<and> snd (update_record \<lparr>ip_address = dotted_quad, subprocess_exec = (\<lambda>argv fs. Exited 1 [] ''update failed'')\<rparr>
        example_config Map.empty \<lparr>client = None\<rparr> TXT delete [''foo''] None)
      = Inl (HTTPException 500 ''An error occured.'')
   \<and> fst (update_record \<lparr>ip_address = dotted_quad, subprocess_exec = (\<lambda>argv fs. Exited 1 [] ''update failed'')\<rparr>
        example_config Map.empty \<lparr>client = None\<rparr> TXT delete [''foo''] None) ''/tmp/nsupdate.txt''
      = Some (file_content example_config TXT delete [''foo''] [])
   \<and> record_value_of \<lparr>ip_address = dotted_quad, subprocess_exec = (\<lambda>argv fs. Raised)\<rparr>
      \<lparr>client = None\<rparr> TXT delete None = Inr []
   \<and> snd (update_record \<lparr>ip_address = dotted_quad, subprocess_exec = (\<lambda>argv fs. Raised)\<rparr>
        example_config Map.empty \<lparr>client = None\<rparr> TXT delete [''foo''] None)
      = Inl (HTTPException 500 ''An error occured.'')
   \<and> fst (update_record \<lparr>ip_address = dotted_quad, subprocess_exec = (\<lambda>argv fs. Raised)\<rparr>
        example_config Map.empty \<lparr>client = None\<rparr> TXT delete [''foo''] None) ''/tmp/nsupdate.txt''
      = Some (file_content example_config TXT delete [''foo''] [])"
proof -
  have r: "record_value_of sys \<lparr>client = None\<rparr> TXT delete None = Inr []" for sys
    by (simp add: record_value_of_def stripped_def)
  have e1: "snd (update_record \<lparr>ip_address = dotted_quad, subprocess_exec = (\<lambda>argv fs. Exited 1 [] ''update failed'')\<rparr>
        example_config Map.empty \<lparr>client = None\<rparr> TXT delete [''foo''] None)
      = Inl (HTTPException 500 ''An error occured.'')"
    by (simp add: update_record_def r)
  have e2: "snd (update_record \<lparr>ip_address = dotted_quad, subprocess_exec = (\<lambda>argv fs. Raised)\<rparr>
        example_config Map.empty \<lparr>client = None\<rparr> TXT delete [''foo''] None)
      = Inl (HTTPException 500 ''An error occured.'')"
    by (simp add: update_record_def r)
  show ?thesis
    using update_file_left_in_place [OF r, of _ example_config Map.empty "[''foo'']"] r e1 e2
    by (simp add: example_update_file)
qed

text \<open>
  C1, as stated, fails: two requests, the first writing before the second and running its
  tool after it. The tool of the first request is handed the batch of the second.
\<close>

theorem shared_update_file_counterexample:
  "tool_input (snd (run_schedule example_config [0, 1, 0, 1]
       (Map.empty, [new_job (file_content example_config A update [''foo''] ''10.0.0.5''),
                    new_job (file_content example_config A update [''bar''] ''10.0.0.6'')])) ! 0)
     = Some (file_content example_config A update [''bar''] ''10.0.0.6'')
   \<and> file_content example_config A update [''bar''] ''10.0.0.6''
       \<noteq> file_content example_config A update [''foo''] ''10.0.0.5''"
proof -
  have d: "file_content example_config A update [''bar''] ''10.0.0.6''
       \<noteq> file_content example_config A update [''foo''] ''10.0.0.5''"
    by (simp add: file_content_def)
  have r: "tool_input (snd (run_schedule cfg [0, 1, 0, 1] (Map.empty, [new_job b0, new_job b1])) ! 0) = Some b1"
    for cfg b0 b1
    by (simp add: run_schedule_def step_def new_job_def)
  show ?thesis
    by (rule conjI [OF r d])
qed

text \<open>
  C1, amended. Neither requests with their own file nor a lock: both requests write to the
  one update file. Of the six ways to interleave the write and the tool run of two requests
  with different batches, the two that handle one request after the other hand every tool
  its own batch; each of the other four hands a tool the batch of the other request.
\<close>

theorem serial_requests_read_own_batch:
  assumes "b0 \<noteq> b1"
  shows "own_batches (run_schedule cfg [0, 0, 1, 1] (fs, [new_job b0, new_job b1]))
       \<and> own_batches (run_schedule cfg [1, 1, 0, 0] (fs, [new_job b0, new_job b1]))
       \<and> \<not> own_batches (run_schedule cfg [0, 1, 0, 1] (fs, [new_job b0, new_job b1]))
       \<and> \<not> own_batches (run_schedule cfg [0, 1, 1, 0] (fs, [new_job b0, new_job b1]))
       \<and> \<not> own_batches (run_schedule cfg [1, 0, 0, 1] (fs, [new_job b0, new_job b1]))
       \<and> \<not> own_batches (run_schedule cfg [1, 0, 1, 0] (fs, [new_job b0, new_job b1]))"
  using assms by (auto simp: own_batches_def run_schedule_def step_def new_job_def)

theorem serial_requests_read_own_batch_witness:
  "''x'' \<noteq> ''y''
   \<and> own_batches (run_schedule example_config [0, 0, 1, 1] (Map.empty, [new_job ''x'', new_job ''y'']))
   \<and> own_batches (run_schedule example_config [1, 1, 0, 0] (Map.empty, [new_job ''x'', new_job ''y'']))
   \<and> \<not> own_batches (run_schedule example_config [0, 1, 0, 1] (Map.empty, [new_job ''x'', new_job ''y'']))"
proof -
  have d: "''x'' \<noteq> ''y''" by simp
  show ?thesis
    using serial_requests_read_own_batch [OF d, of example_config Map.empty] by simp
qed




end
